theory Spec2Isabelle
  imports Main "HOL-Library.AList"
begin


section \<open>The Jenkins node: data model\<close>

text \<open>
  Values handled by the node are JavaScript values. \<open>JUndefined\<close> is the value of a
  variable that was never assigned, of an argument that was not passed and of a property
  that an object does not have. An object (\<open>IDataObject\<close>) is the list of its own
  properties in the order in which JavaScript enumerates them: first the names that are
  array indices, in ascending numeric order, then the other names in the order in which
  they were first assigned. Numbers are modelled as integers (the only number the node
  itself looks at is the \<open>depth\<close> filter).
\<close>

datatype jsvalue =
    JUndefined
  | JNull
  | JBool bool
  | JNum int
  | JStr string
  | JArr "jsvalue list"
  | JObj "(string \<times> jsvalue) list"

text \<open>An error is a thrown value with a \<open>message\<close>.\<close>

datatype error = Error (message: string)

record JenkinsApiCredentials =
  username :: string
  apiKey :: string
  baseUrl :: string

text \<open>\<open>Array.isArray\<close>, truthiness as used by \<open>if (x)\<close> and \<open>x ? a : b\<close>, and property
  read \<open>obj.key\<close> on an \<open>IDataObject\<close>.\<close>

fun isArray :: "jsvalue \<Rightarrow> bool" where
  "isArray (JArr xs) = True"
| "isArray v = False"

fun elements :: "jsvalue \<Rightarrow> jsvalue list" where
  "elements (JArr xs) = xs"
| "elements v = []"

fun truthy :: "jsvalue \<Rightarrow> bool" where
  "truthy JUndefined = False"
| "truthy JNull = False"
| "truthy (JBool b) = b"
| "truthy (JNum n) = (n \<noteq> 0)"
| "truthy (JStr s) = (s \<noteq> [])"
| "truthy (JArr xs) = True"
| "truthy (JObj kvs) = True"

definition property :: "(string \<times> jsvalue) list \<Rightarrow> string \<Rightarrow> jsvalue" where
  "property obj key = (case map_of obj key of None \<Rightarrow> JUndefined | Some v \<Rightarrow> v)"

section \<open>The host\<close>

text \<open>
  Everything the node calls on \<open>this\<close> or imports is supplied by the host:
  \<^item> \<open>getInputData_length\<close>: \<open>this.getInputData().length\<close>;
  \<^item> \<open>continueOnFail\<close>: \<open>this.continueOnFail()\<close>;
  \<^item> \<open>getNodeParameter_string name i\<close>: \<open>this.getNodeParameter(name, i) as string\<close>;
  \<^item> \<open>getNodeParameter_params i\<close>: \<open>this.getNodeParameter('param.params', i, [])\<close>, a list
    of \<open>{name, value}\<close> pairs of strings;
  \<^item> \<open>getNodeParameter_filters i\<close>: \<open>this.getNodeParameter('filters', i) as IDataObject\<close>;
  \<^item> \<open>getCredentials i\<close>: \<open>this.getCredentials('JenkinsApi')\<close> as called while item \<open>i\<close>
    is processed;
  \<^item> \<open>jenkinsApiRequest i method uri queryParams headers body\<close>: the call
    \<open>jenkinsApiRequest.call(this, method, uri, queryParams, headers, body)\<close> made while
    item \<open>i\<close> is processed. The function lives in \<open>GenericFunctions.ts\<close>, which is not
    among the sources, so it is a parameter: the model records the call with the
    arguments \<open>execute\<close> passes (an argument left out is \<open>JUndefined\<close>) and takes the
    response, or the error thrown, from the host;
  \<^item> \<open>parseString i text\<close>: the promise around \<open>xml2js\<close>'s
    \<open>parseString(text, {explicitArray: false}, callback)\<close> while item \<open>i\<close> is processed:
    \<open>Inl err\<close> when the callback gets an error (the promise is rejected), \<open>Inr data\<close>
    otherwise;
  \<^item> \<open>apply_limit\<close> and \<open>apply_error\<close>: the JavaScript engine running the node accepts at
    most \<open>apply_limit\<close> arguments in \<open>Function.prototype.apply\<close> and throws the
    \<open>RangeError\<close> \<open>apply_error\<close> beyond that (for Node.js about 125000 arguments at its
    default stack size).
  Each call either throws (\<open>Inl\<close>) or returns (\<open>Inr\<close>). The item index of
  \<open>getCredentials\<close>, \<open>jenkinsApiRequest\<close> and \<open>parseString\<close> stands for the moment of the
  call: the host may answer differently for different items.
\<close>

record host =
  getInputData_length :: nat
  continueOnFail :: bool
  getNodeParameter_string :: "string \<Rightarrow> nat \<Rightarrow> error + string"
  getNodeParameter_params :: "nat \<Rightarrow> error + (string \<times> string) list"
  getNodeParameter_filters :: "nat \<Rightarrow> error + (string \<times> jsvalue) list"
  getCredentials :: "nat \<Rightarrow> error + JenkinsApiCredentials"
  jenkinsApiRequest :: "nat \<Rightarrow> string \<Rightarrow> string \<Rightarrow> jsvalue \<Rightarrow> jsvalue \<Rightarrow> jsvalue \<Rightarrow> error + jsvalue"
  parseString :: "nat \<Rightarrow> jsvalue \<Rightarrow> error + jsvalue"
  apply_limit :: nat
  apply_error :: error

text \<open>The calls to the host that \<open>execute\<close> makes, in the order it makes them.\<close>

datatype event =
    GetNodeParameter string nat
  | GetCredentials string
  | JenkinsApiRequest string string jsvalue jsvalue jsvalue
  | ParseString jsvalue bool

section \<open>Statements of the loop body\<close>

text \<open>
  A statement of the \<open>try\<close> block runs on the variable \<open>responseData\<close> (declared before
  the loop) and yields the host calls it made, the new \<open>responseData\<close> and the error it
  threw, if any. \<open>await ev r k\<close> is a host call \<open>ev\<close> with result \<open>r\<close> followed by the rest
  \<open>k\<close> of the block; a throw leaves \<open>responseData\<close> as it was.
\<close>

type_synonym stmt = "jsvalue \<Rightarrow> event list \<times> jsvalue \<times> error option"

definition skip :: stmt where
  "skip responseData = ([], responseData, None)"

definition assign :: "jsvalue \<Rightarrow> stmt" where
  "assign v responseData = ([], v, None)"

definition await :: "event \<Rightarrow> error + 'a \<Rightarrow> ('a \<Rightarrow> stmt) \<Rightarrow> stmt" where
  "await ev r k responseData =
     (case r of
        Inl e \<Rightarrow> ([ev], responseData, Some e)
      | Inr v \<Rightarrow> (case k v responseData of (evs, rd, x) \<Rightarrow> (ev # evs, rd, x)))"

definition seq :: "stmt \<Rightarrow> stmt \<Rightarrow> stmt" where
  "seq a b responseData =
     (case a responseData of
        (evs, rd, Some e) \<Rightarrow> (evs, rd, Some e)
      | (evs, rd, None) \<Rightarrow> (case b rd of (evs', rd', x) \<Rightarrow> (evs @ evs', rd', x)))"

definition guarded :: "bool \<Rightarrow> stmt \<Rightarrow> stmt" where
  "guarded c a = (if c then a else skip)"

section \<open>execute\<close>

text \<open>
  The assignment \<open>body[name] = value\<close> of a string \<open>value\<close> to a property of a plain object.
  \<^item> The name \<open>__proto__\<close> is the accessor inherited from \<open>Object.prototype\<close>: its setter
    ignores a value that is neither an object nor \<open>null\<close>, so the assignment of a string
    stores nothing.
  \<^item> An own property that exists keeps its place and gets the new value.
  \<^item> A new property whose name is an array index (the decimal numeral, without a leading
    zero, of a number below \<open>2^32 - 1\<close>) takes its place among the array indices, which
    come first in ascending order; any other new property comes last.
\<close>

definition digit :: "char \<Rightarrow> nat option" where
  "digit c =
     (if (48 :: nat) \<le> of_char c \<and> of_char c \<le> (57 :: nat) then Some (of_char c - 48) else None)"

fun decimal :: "nat \<Rightarrow> string \<Rightarrow> nat option" where
  "decimal acc [] = Some acc"
| "decimal acc (c # cs) =
     (case digit c of None \<Rightarrow> None | Some d \<Rightarrow> decimal (10 * acc + d) cs)"

definition array_index :: "string \<Rightarrow> nat option" where
  "array_index name =
     (case name of
        [] \<Rightarrow> None
      | c # cs \<Rightarrow>
          if c = CHR ''0'' \<and> cs \<noteq> [] then None
          else (case decimal 0 name of
                  None \<Rightarrow> None
                | Some n \<Rightarrow> if n < 4294967295 then Some n else None))"

fun insert_index ::
  "nat \<Rightarrow> string \<Rightarrow> jsvalue \<Rightarrow> (string \<times> jsvalue) list \<Rightarrow> (string \<times> jsvalue) list" where
  "insert_index n name v [] = [(name, v)]"
| "insert_index n name v (p # obj) =
     (case array_index (fst p) of
        Some m \<Rightarrow> if m < n then p # insert_index n name v obj else (name, v) # p # obj
      | None \<Rightarrow> (name, v) # p # obj)"

definition set_property ::
  "string \<Rightarrow> string \<Rightarrow> (string \<times> jsvalue) list \<Rightarrow> (string \<times> jsvalue) list" where
  "set_property name v obj =
     (if name = ''__proto__'' then obj
      else if map_of obj name \<noteq> None then AList.update name (JStr v) obj
      else (case array_index name of
              Some n \<Rightarrow> insert_index n name (JStr v) obj
            | None \<Rightarrow> obj @ [(name, JStr v)]))"

text \<open>The \<open>reduce\<close> of the \<open>triggerParams\<close> branch: \<open>body[param.name] = param.value\<close> for
  each pair, from the left, starting from \<open>{}\<close>.\<close>

definition reduce_params :: "(string \<times> string) list \<Rightarrow> (string \<times> jsvalue) list" where
  "reduce_params params =
     foldl (\<lambda>body param. set_property (fst param) (snd param) body) [] params"

definition job_block :: "host \<Rightarrow> string \<Rightarrow> string \<Rightarrow> nat \<Rightarrow> stmt" where
  "job_block h url operation i =
     seq (guarded (operation = ''trigger'')
       (await (GetNodeParameter ''token'' i) (getNodeParameter_string h ''token'' i) (\<lambda>token.
        await (GetNodeParameter ''job'' i) (getNodeParameter_string h ''job'' i) (\<lambda>job.
        let endpoint = url @ ''/job/'' @ job @ ''/build?token='' @ token in
        await (JenkinsApiRequest ''get'' endpoint JUndefined JUndefined JUndefined)
          (jenkinsApiRequest h i ''get'' endpoint JUndefined JUndefined JUndefined) assign))))
    (seq (guarded (operation = ''triggerParams'')
       (await (GetNodeParameter ''token'' i) (getNodeParameter_string h ''token'' i) (\<lambda>token.
        await (GetNodeParameter ''job'' i) (getNodeParameter_string h ''job'' i) (\<lambda>job.
        await (GetNodeParameter ''param.params'' i) (getNodeParameter_params h i) (\<lambda>params.
        let body = (if params \<noteq> [] then reduce_params params else []);
            endpoint = url @ ''/job/'' @ job @ ''/buildWithParameters?token='' @ token in
        await (JenkinsApiRequest ''get'' endpoint (JObj []) (JObj []) (JObj [(''data'', JObj body)]))
          (jenkinsApiRequest h i ''get'' endpoint (JObj []) (JObj []) (JObj [(''data'', JObj body)]))
          assign)))))
    (seq (guarded (operation = ''copy'')
       (await (GetNodeParameter ''job'' i) (getNodeParameter_string h ''job'' i) (\<lambda>job.
        await (GetNodeParameter ''newJob'' i) (getNodeParameter_string h ''newJob'' i) (\<lambda>name.
        let queryParams = JObj [(''name'', JStr name), (''mode'', JStr ''copy''), (''from'', JStr job)];
            endpoint = url @ ''/createItem'' in
        await (JenkinsApiRequest ''post'' endpoint queryParams JUndefined JUndefined)
          (jenkinsApiRequest h i ''post'' endpoint queryParams JUndefined JUndefined) assign))))
    (guarded (operation = ''create'')
       (await (GetNodeParameter ''newJob'' i) (getNodeParameter_string h ''newJob'' i) (\<lambda>name.
        let queryParams = JObj [(''name'', JStr name)];
            headers = JObj [(''content-type'', JStr ''application/xml'')] in
        await (GetNodeParameter ''xml'' i) (getNodeParameter_string h ''xml'' i) (\<lambda>body.
        let endpoint = url @ ''/createItem'' in
        await (JenkinsApiRequest ''post'' endpoint queryParams headers (JStr body))
          (jenkinsApiRequest h i ''post'' endpoint queryParams headers (JStr body)) assign))))))"

definition instance_block :: "host \<Rightarrow> string \<Rightarrow> string \<Rightarrow> nat \<Rightarrow> stmt" where
  "instance_block h url operation i =
     seq (guarded (operation = ''quietDown'')
       (await (GetNodeParameter ''reason'' i) (getNodeParameter_string h ''reason'' i) (\<lambda>reason.
        let queryParams = (if reason \<noteq> [] then JObj [(''reason'', JStr reason)] else JUndefined);
            endpoint = url @ ''/quietDown'' in
        await (JenkinsApiRequest ''post'' endpoint queryParams JUndefined JUndefined)
          (jenkinsApiRequest h i ''post'' endpoint queryParams JUndefined JUndefined) assign)))
    (seq (guarded (operation = ''cancelQuietDown'')
       (let endpoint = url @ ''/cancelQuietDown'' in
        await (JenkinsApiRequest ''post'' endpoint JUndefined JUndefined JUndefined)
          (jenkinsApiRequest h i ''post'' endpoint JUndefined JUndefined JUndefined) assign))
    (seq (guarded (operation = ''restart'')
       (let endpoint = url @ ''/restart'' in
        await (JenkinsApiRequest ''post'' endpoint JUndefined JUndefined JUndefined)
          (jenkinsApiRequest h i ''post'' endpoint JUndefined JUndefined JUndefined) assign))
    (seq (guarded (operation = ''safeRestart'')
       (let endpoint = url @ ''/safeRestart'' in
        await (JenkinsApiRequest ''post'' endpoint JUndefined JUndefined JUndefined)
          (jenkinsApiRequest h i ''post'' endpoint JUndefined JUndefined JUndefined) assign))
    (seq (guarded (operation = ''exit'')
       (let endpoint = url @ ''/exit'' in
        await (JenkinsApiRequest ''post'' endpoint JUndefined JUndefined JUndefined)
          (jenkinsApiRequest h i ''post'' endpoint JUndefined JUndefined JUndefined) assign))
    (guarded (operation = ''safeExit'')
       (let endpoint = url @ ''/safeExit'' in
        await (JenkinsApiRequest ''post'' endpoint JUndefined JUndefined JUndefined)
          (jenkinsApiRequest h i ''post'' endpoint JUndefined JUndefined JUndefined) assign))))))"

definition build_block :: "host \<Rightarrow> string \<Rightarrow> string \<Rightarrow> nat \<Rightarrow> stmt" where
  "build_block h url operation i =
     guarded (operation = ''build:getAll'')
       (let endpoint = url @ ''/api/xml'' in
        await (GetNodeParameter ''filters'' i) (getNodeParameter_filters h i) (\<lambda>filters.
        let tree = property filters ''tree'';
            xpath = property filters ''xpath'';
            exclude = property filters ''exclude'';
            depth = property filters ''depth'';
            queryParams = JObj [(''depth'', if truthy depth then depth else JNum 1),
                                (''tree'', tree), (''xpath'', xpath), (''exclude'', exclude)] in
        await (JenkinsApiRequest ''get'' endpoint queryParams JUndefined JUndefined)
          (jenkinsApiRequest h i ''get'' endpoint queryParams JUndefined JUndefined) (\<lambda>response.
        await (ParseString response False) (parseString h i response) assign)))"

text \<open>The statements of the \<open>try\<close> block before the push onto \<open>returnData\<close>.\<close>

definition try_block :: "host \<Rightarrow> string \<Rightarrow> string \<Rightarrow> nat \<Rightarrow> stmt" where
  "try_block h resource operation i =
     await (GetCredentials ''JenkinsApi'') (getCredentials h i) (\<lambda>credentials.
       seq (guarded (resource = ''job'') (job_block h (baseUrl credentials) operation i))
      (seq (guarded (resource = ''instance'') (instance_block h (baseUrl credentials) operation i))
           (guarded (resource = ''build'') (build_block h (baseUrl credentials) operation i))))"

text \<open>The last statement of the \<open>try\<close> block: an array response is spread onto
  \<open>returnData\<close> by \<open>returnData.push.apply(returnData, responseData)\<close>, which passes the
  elements as the arguments of one call and so throws, before anything is pushed, when
  there are more of them than the engine accepts; any other value is pushed as one
  item.\<close>

definition push_response :: "host \<Rightarrow> jsvalue list \<Rightarrow> jsvalue \<Rightarrow> error + jsvalue list" where
  "push_response h returnData responseData =
     (if isArray responseData then
        (if length (elements responseData) \<le> apply_limit h
         then Inr (returnData @ elements responseData)
         else Inl (apply_error h))
      else Inr (returnData @ [responseData]))"

record state =
  returnData :: "jsvalue list"
  responseData :: jsvalue
  trace :: "event list"

text \<open>The \<open>for\<close> loop from index \<open>i\<close>. An iteration runs the statements of the \<open>try\<close>
  block and, if none of them threw, the push; an error thrown by either goes to the
  \<open>catch\<close> block. The result is the state when the loop ends and the error it rethrew,
  if any.\<close>

function loop :: "host \<Rightarrow> string \<Rightarrow> string \<Rightarrow> nat \<Rightarrow> state \<Rightarrow> state \<times> error option" where
  "loop h resource operation i st =
     (if i < getInputData_length h then
        (case try_block h resource operation i (responseData st) of
           (evs, rd, thrown) \<Rightarrow>
             (case (case thrown of
                      None \<Rightarrow> push_response h (returnData st) rd
                    | Some e \<Rightarrow> Inl e) of
                Inr pushed \<Rightarrow>
                  loop h resource operation (i + 1)
                    \<lparr>returnData = pushed, responseData = rd, trace = trace st @ evs\<rparr>
              | Inl e \<Rightarrow>
                  if continueOnFail h then
                    loop h resource operation (i + 1)
                      \<lparr>returnData = returnData st @ [JObj [(''error'', JStr (message e))]],
                       responseData = rd, trace = trace st @ evs\<rparr>
                  else (\<lparr>returnData = returnData st, responseData = rd,
                          trace = trace st @ evs\<rparr>, Some e)))
      else (st, None))"
  by pat_completeness auto
termination
  by (relation "measure (\<lambda>(h, resource, operation, i, st). getInputData_length h - i)") auto

text \<open>What the caller of \<open>execute\<close> gets: the list handed to
  \<open>this.helpers.returnJsonArray\<close>, or the error thrown.\<close>

datatype outcome = Returned "jsvalue list" | Thrown error

definition execute :: "host \<Rightarrow> state \<times> outcome" where
  "execute h =
     (case getNodeParameter_string h ''resource'' 0 of
        Inl e \<Rightarrow>
          (\<lparr>returnData = [], responseData = JUndefined,
            trace = [GetNodeParameter ''resource'' 0]\<rparr>, Thrown e)
      | Inr resource \<Rightarrow>
          (case getNodeParameter_string h ''operation'' 0 of
             Inl e \<Rightarrow>
               (\<lparr>returnData = [], responseData = JUndefined,
                 trace = [GetNodeParameter ''resource'' 0, GetNodeParameter ''operation'' 0]\<rparr>,
                Thrown e)
           | Inr operation \<Rightarrow>
               (case loop h resource operation 0
                       \<lparr>returnData = [], responseData = JUndefined,
                        trace = [GetNodeParameter ''resource'' 0,
                                 GetNodeParameter ''operation'' 0]\<rparr> of
                  (st, Some e) \<Rightarrow> (st, Thrown e)
                | (st, None) \<Rightarrow> (st, Returned (returnData st)))))"

section \<open>The credential test\<close>

text \<open>\<open>Buffer.from(s).toString('base64')\<close>: the standard base64 encoding (RFC 4648, with
  padding) of the bytes of \<open>s\<close>; a \<open>string\<close> here is the list of those bytes.\<close>

definition base64_alphabet :: string where
  "base64_alphabet = ''ABCDEFGHIJKLMNOPQRSTUVWXYZabcdefghijklmnopqrstuvwxyz0123456789+/''"

definition sextet :: "nat \<Rightarrow> char" where
  "sextet n = base64_alphabet ! (n mod 64)"

fun base64_bytes :: "nat list \<Rightarrow> string" where
  "base64_bytes (a # b # c # bs) =
     [sextet (a div 4), sextet ((a mod 4) * 16 + b div 16),
      sextet ((b mod 16) * 4 + c div 64), sextet (c mod 64)] @ base64_bytes bs"
| "base64_bytes [a, b] =
     [sextet (a div 4), sextet ((a mod 4) * 16 + b div 16), sextet ((b mod 16) * 4), CHR ''='']"
| "base64_bytes [a] = [sextet (a div 4), sextet ((a mod 4) * 16), CHR ''='', CHR ''='']"
| "base64_bytes [] = []"

definition base64 :: "string \<Rightarrow> string" where
  "base64 s = base64_bytes (map of_char s)"

text \<open>Modelled from the spec: \<open>tolerateTrailingSlash\<close>, imported from
  \<open>GenericFunctions.ts\<close>, which is not among the sources. The spec says that the base
  URL's trailing slash is normalised, that a base URL written with a trailing slash
  gives the same request URI as the one written without, and that the normalisation is
  idempotent: trailing slashes are dropped.\<close>

definition tolerateTrailingSlash :: "string \<Rightarrow> string" where
  "tolerateTrailingSlash url = rev (dropWhile (\<lambda>c. c = CHR ''/'') (rev url))"

text \<open>The options object handed to \<open>this.helpers.request\<close>, and the test's result
  (\<open>result_message\<close> is its \<open>message\<close> property).\<close>

record request_options =
  headers :: jsvalue
  request_method :: string
  body :: jsvalue
  qs :: jsvalue
  uri :: string
  json :: bool

record NodeCredentialTestResult =
  status :: string
  result_message :: string

text \<open>\<open>buildsGetApiTest\<close>, given the host's \<open>this.helpers.request\<close> and
  \<open>credential.data\<close>. It yields the requests made and the result returned.\<close>

definition buildsGetApiTest ::
  "(request_options \<Rightarrow> error + jsvalue) \<Rightarrow> JenkinsApiCredentials
     \<Rightarrow> request_options list \<times> NodeCredentialTestResult" where
  "buildsGetApiTest request credential =
     (let token = base64 (username credential @ '':'' @ apiKey credential);
          url = tolerateTrailingSlash (baseUrl credential);
          endpoint = ''/api/xml'';
          options = \<lparr>headers = JObj [(''Authorization'', JStr (''Basic '' @ token))],
                     request_method = ''GET'', body = JObj [], qs = JObj [],
                     uri = url @ endpoint, json = True\<rparr>
      in case request options of
           Inr response \<Rightarrow>
             ([options], \<lparr>status = ''OK'', result_message = ''Authentication successful''\<rparr>)
         | Inl e \<Rightarrow> ([options], \<lparr>status = ''Error'', result_message = message e\<rparr>))"

section \<open>Reading a trace\<close>

text \<open>Which host call an event is, the \<open>(resource, operation)\<close> pairs for which a branch
  of the \<open>try\<close> block runs, and statements that make no call of a given kind.\<close>

fun is_request :: "event \<Rightarrow> bool" where
  "is_request (JenkinsApiRequest m u q hs b) = True"
| "is_request ev = False"

fun is_parse :: "event \<Rightarrow> bool" where
  "is_parse (ParseString t ea) = True"
| "is_parse ev = False"



definition dispatches :: "string \<Rightarrow> string \<Rightarrow> bool" where
  "dispatches resource operation =
     (resource = ''job'' \<and> operation \<in> set [''trigger'', ''triggerParams'', ''copy'', ''create'']
      \<or> resource = ''instance'' \<and> operation \<in> set [''quietDown'', ''cancelQuietDown'', ''restart'',
            ''safeRestart'', ''exit'', ''safeExit'']
      \<or> resource = ''build'' \<and> operation = ''build:getAll'')"


text \<open>The mapping of the spec for \<open>triggerParams\<close>: the list of pairs folded from the
  left into a map from name to value.\<close>

definition paramsAsMap :: "(string \<times> string) list \<Rightarrow> string \<rightharpoonup> jsvalue" where
  "paramsAsMap params = foldl (\<lambda>m param. m(fst param \<mapsto> JStr (snd param))) Map.empty params"

section \<open>Example hosts\<close>

text \<open>A host with \<open>n\<close> input items whose parameters and credentials always resolve,
  whose Jenkins server answers item \<open>i\<close> with \<open>respond i\<close> and whose engine accepts 125000
  arguments; and one with three items whose second request fails.\<close>

definition example_host ::
  "nat \<Rightarrow> bool \<Rightarrow> string \<Rightarrow> string \<Rightarrow> string \<Rightarrow> (nat \<Rightarrow> error + jsvalue) \<Rightarrow> host" where
  "example_host n tolerant resource operation url respond =
     \<lparr>getInputData_length = n,
      continueOnFail = tolerant,
      getNodeParameter_string = (\<lambda>name i. Inr (if name = ''resource'' then resource
         else if name = ''operation'' then operation
         else if name = ''reason'' then [] else name)),
      getNodeParameter_params =
        (\<lambda>i. Inr [(''branch'', ''main''), (''env'', ''test''), (''branch'', ''dev'')]),
      getNodeParameter_filters = (\<lambda>i. Inr [(''tree'', JStr ''jobs[name]'')]),
      getCredentials = (\<lambda>i. Inr \<lparr>username = ''admin'', apiKey = ''secret'', baseUrl = url\<rparr>),
      jenkinsApiRequest = (\<lambda>i m u q hs b. respond i),
      parseString = (\<lambda>i t. if t = JStr ''<hudson/>'' then Inr (JObj [(''hudson'', JStr [])])
         else Inl (Error ''Unexpected end'')),
      apply_limit = 125000,
      apply_error = Error ''Maximum call stack size exceeded''\<rparr>"

definition flaky_host :: "bool \<Rightarrow> jsvalue \<Rightarrow> host" where
  "flaky_host tolerant first =
     example_host 3 tolerant ''job'' ''trigger'' ''http://ci''
       (\<lambda>i. if i = 0 then Inr first else if i = 1 then Inl (Error ''boom'') else Inr JNull)"

text \<open>An array of 125001 elements, one more than the example engine accepts as
  arguments.\<close>

definition long_array :: "jsvalue list" where
  "long_array = replicate 125001 JNull"

section \<open>Statements and the loop\<close>

lemmas stmt_defs = skip_def assign_def await_def seq_def guarded_def







lemma seq_skip: "seq skip skip = skip"
  by (rule ext) (simp add: seq_def skip_def)

lemma job_block_nomatch:
  "operation \<notin> set [''trigger'', ''triggerParams'', ''copy'', ''create''] \<Longrightarrow>
   job_block h url operation i = skip"
  by (simp add: job_block_def guarded_def seq_skip)

lemma instance_block_nomatch:
  "operation \<notin> set [''quietDown'', ''cancelQuietDown'', ''restart'', ''safeRestart'', ''exit'', ''safeExit''] \<Longrightarrow>
   instance_block h url operation i = skip"
  by (simp add: instance_block_def guarded_def seq_skip)

lemma build_block_nomatch:
  "operation \<noteq> ''build:getAll'' \<Longrightarrow> build_block h url operation i = skip"
  by (simp add: build_block_def guarded_def)




declare loop.simps [simp del]

lemma loop_done:
  "\<not> i < getInputData_length h \<Longrightarrow> loop h resource operation i st = (st, None)"
  by (subst loop.simps) simp

lemma loop_ok:
  "i < getInputData_length h \<Longrightarrow>
   try_block h resource operation i (responseData st) = (evs, rd, None) \<Longrightarrow>
   push_response h (returnData st) rd = Inr pushed \<Longrightarrow>
   loop h resource operation i st =
     loop h resource operation (Suc i)
       \<lparr>returnData = pushed, responseData = rd, trace = trace st @ evs\<rparr>"
  by (subst loop.simps) simp

lemma loop_tolerated:
  "i < getInputData_length h \<Longrightarrow>
   try_block h resource operation i (responseData st) = (evs, rd, Some e) \<Longrightarrow>
   continueOnFail h \<Longrightarrow>
   loop h resource operation i st =
     loop h resource operation (Suc i)
       \<lparr>returnData = returnData st @ [JObj [(''error'', JStr (message e))]],
        responseData = rd, trace = trace st @ evs\<rparr>"
  by (subst loop.simps) simp

lemma loop_abort:
  "i < getInputData_length h \<Longrightarrow>
   try_block h resource operation i (responseData st) = (evs, rd, Some e) \<Longrightarrow>
   \<not> continueOnFail h \<Longrightarrow>
   loop h resource operation i st =
     (\<lparr>returnData = returnData st, responseData = rd, trace = trace st @ evs\<rparr>, Some e)"
  by (subst loop.simps) simp

lemma loop_push_tolerated:
  "i < getInputData_length h \<Longrightarrow>
   try_block h resource operation i (responseData st) = (evs, rd, None) \<Longrightarrow>
   push_response h (returnData st) rd = Inl e \<Longrightarrow>
   continueOnFail h \<Longrightarrow>
   loop h resource operation i st =
     loop h resource operation (Suc i)
       \<lparr>returnData = returnData st @ [JObj [(''error'', JStr (message e))]],
        responseData = rd, trace = trace st @ evs\<rparr>"
  by (subst loop.simps) simp

lemma loop_push_abort:
  "i < getInputData_length h \<Longrightarrow>
   try_block h resource operation i (responseData st) = (evs, rd, None) \<Longrightarrow>
   push_response h (returnData st) rd = Inl e \<Longrightarrow>
   \<not> continueOnFail h \<Longrightarrow>
   loop h resource operation i st =
     (\<lparr>returnData = returnData st, responseData = rd, trace = trace st @ evs\<rparr>, Some e)"
  by (subst loop.simps) simp







lemma try_block_nomatch:
  assumes "\<not> dispatches resource operation" "getCredentials h i = Inr c"
  shows "try_block h resource operation i rd = ([GetCredentials ''JenkinsApi''], rd, None)"
proof -
  have j: "guarded (resource = ''job'') (job_block h (baseUrl c) operation i) = skip"
    using assms(1) by (auto simp: guarded_def dispatches_def intro!: job_block_nomatch)
  have n: "guarded (resource = ''instance'') (instance_block h (baseUrl c) operation i) = skip"
    using assms(1) by (auto simp: guarded_def dispatches_def intro!: instance_block_nomatch)
  have b: "guarded (resource = ''build'') (build_block h (baseUrl c) operation i) = skip"
    using assms(1) by (auto simp: guarded_def dispatches_def intro!: build_block_nomatch)
  show ?thesis
    by (simp add: try_block_def await_def assms(2) j n b seq_skip skip_def)
qed

text \<open>Conversely, for each pair of \<open>dispatches\<close> a branch runs: the block makes a
  host call after fetching the credentials.\<close>

lemma try_block_match:
  assumes d: "dispatches resource operation" and c: "getCredentials h i = Inr c"
  shows "2 \<le> length (fst (try_block h resource operation i rd))"
proof -
  from d have "resource = ''job'' \<and> (operation = ''trigger'' \<or> operation = ''triggerParams''
        \<or> operation = ''copy'' \<or> operation = ''create'')
      \<or> resource = ''instance'' \<and> (operation = ''quietDown'' \<or> operation = ''cancelQuietDown''
        \<or> operation = ''restart'' \<or> operation = ''safeRestart'' \<or> operation = ''exit''
        \<or> operation = ''safeExit'')
      \<or> resource = ''build'' \<and> operation = ''build:getAll''"
    by (simp add: dispatches_def)
  then show ?thesis
    using c
    by (elim disjE conjE)
      (simp_all add: try_block_def job_block_def instance_block_def build_block_def stmt_defs
        Let_def case_prod_beta split: sum.splits)
qed






lemma loop_nomatch:
  assumes "\<not> dispatches resource operation"
    and "\<forall>j < getInputData_length h. \<exists>c. getCredentials h j = Inr c"
  shows "i \<le> getInputData_length h \<Longrightarrow> responseData st = JUndefined \<Longrightarrow>
    loop h resource operation i st =
      (\<lparr>returnData = returnData st @ replicate (getInputData_length h - i) JUndefined,
        responseData = JUndefined,
        trace = trace st @ replicate (getInputData_length h - i) (GetCredentials ''JenkinsApi'')\<rparr>, None)"
proof (induction "getInputData_length h - i" arbitrary: i st)
  case 0
  then show ?case by (simp add: loop_done)
next
  case (Suc k)
  then have lt: "i < getInputData_length h" and k: "k = getInputData_length h - Suc i" by auto
  from assms(2) lt obtain c where c: "getCredentials h i = Inr c" by blast
  have t: "try_block h resource operation i (responseData st) = ([GetCredentials ''JenkinsApi''], JUndefined, None)"
    using try_block_nomatch [OF assms(1) c] Suc.prems by simp
  have "loop h resource operation i st = loop h resource operation (Suc i)
      \<lparr>returnData = returnData st @ [JUndefined], responseData = JUndefined,
        trace = trace st @ [GetCredentials ''JenkinsApi'']\<rparr>"
    by (rule loop_ok [OF lt t]) (simp add: push_response_def)
  also have "\<dots> = (\<lparr>returnData = (returnData st @ [JUndefined]) @ replicate k JUndefined,
        responseData = JUndefined,
        trace = (trace st @ [GetCredentials ''JenkinsApi'']) @ replicate k (GetCredentials ''JenkinsApi'')\<rparr>, None)"
    using Suc.hyps(1) [OF k, of "\<lparr>returnData = returnData st @ [JUndefined], responseData = JUndefined,
        trace = trace st @ [GetCredentials ''JenkinsApi'']\<rparr>"] lt k
    by simp
  finally show ?case
    using Suc.hyps(2) [symmetric] by (simp add: replicate_append_same)
qed

section \<open>The parameters of a triggered job\<close>

lemma map_of_insert_index:
  "map_of obj name = None \<Longrightarrow> map_of (insert_index n name v obj) = (map_of obj)(name \<mapsto> v)"
proof (induction obj)
  case Nil
  then show ?case by simp
next
  case (Cons p obj)
  then have ne: "fst p \<noteq> name" and IH: "map_of (insert_index n name v obj) = (map_of obj)(name \<mapsto> v)"
    by (auto split: if_splits)
  show ?case
    using ne IH by (cases p) (auto simp: fun_upd_twist split: option.splits)
qed

lemma map_of_append_fresh:
  "map_of obj name = None \<Longrightarrow> map_of (obj @ [(name, v)]) = (map_of obj)(name \<mapsto> v)"
  by (induction obj) (auto simp: fun_upd_twist split: if_splits)

lemma map_of_set_property:
  assumes "name \<noteq> ''__proto__''"
  shows "map_of (set_property name v obj) = (map_of obj)(name \<mapsto> JStr v)"
proof (cases "map_of obj name")
  case (Some w)
  with assms show ?thesis
    by (simp add: set_property_def update_conv')
next
  case None
  show ?thesis
  proof (cases "array_index name")
    case (Some n)
    have "set_property name v obj = insert_index n name (JStr v) obj"
      using assms None Some by (simp add: set_property_def)
    with None show ?thesis
      by (simp only: map_of_insert_index)
  next
    case no_index: None
    have "set_property name v obj = obj @ [(name, JStr v)]"
      using assms None no_index by (simp add: set_property_def)
    with None show ?thesis
      by (simp only: map_of_append_fresh)
  qed
qed

lemma set_property_proto: "set_property ''__proto__'' v obj = obj"
  by (simp add: set_property_def)

lemma map_of_foldl_set_property:
  "map_of (foldl (\<lambda>body param. set_property (fst param) (snd param) body) obj params) =
   foldl (\<lambda>m param. m(fst param \<mapsto> JStr (snd param))) (map_of obj)
     (filter (\<lambda>param. fst param \<noteq> ''__proto__'') params)"
  by (induction params arbitrary: obj) (simp_all add: map_of_set_property set_property_proto)

text \<open>Read as a mapping, the object built is the spec's mapping of the pairs whose name
  is not \<open>__proto__\<close>.\<close>

lemma reduce_params_map:
  "map_of (reduce_params params) =
   paramsAsMap (filter (\<lambda>param. fst param \<noteq> ''__proto__'') params)"
  by (simp add: reduce_params_def paramsAsMap_def map_of_foldl_set_property)

lemma paramsAsMap_foldl_notin:
  "n \<notin> fst ` set rest \<Longrightarrow>
   foldl (\<lambda>m param. m(fst param \<mapsto> JStr (snd param))) m rest n = m n"
  by (induction rest arbitrary: m) auto

lemma paramsAsMap_last_wins:
  "n \<notin> fst ` set rest \<Longrightarrow> paramsAsMap (front @ (n, v) # rest) n = Some (JStr v)"
  by (simp add: paramsAsMap_def paramsAsMap_foldl_notin)

lemma paramsAsMap_dom: "dom (paramsAsMap params) = fst ` set params"
proof -
  have "dom (foldl (\<lambda>m param. m(fst param \<mapsto> JStr (snd param))) m front) = dom m \<union> fst ` set front"
    for m :: "string \<rightharpoonup> jsvalue" and front
    by (induction front arbitrary: m) auto
  from this [of Map.empty params] show ?thesis
    by (simp add: paramsAsMap_def)
qed

text \<open>For pairs none of which is named \<open>__proto__\<close> the request of \<open>triggerParams\<close> carries
  the spec's mapping: the last pair of a name gives its value and the names are those
  of the pairs.\<close>

lemma triggerParams_request:
  assumes "getCredentials h i = Inr c"
    and "getNodeParameter_string h ''token'' i = Inr token"
    and "getNodeParameter_string h ''job'' i = Inr job"
    and "getNodeParameter_params h i = Inr params"
  shows "filter is_request (fst (try_block h ''job'' ''triggerParams'' i rd)) =
      [JenkinsApiRequest ''get''
         (baseUrl c @ ''/job/'' @ job @ ''/buildWithParameters?token='' @ token)
         (JObj []) (JObj []) (JObj [(''data'', JObj (reduce_params params))])]"
    and "''__proto__'' \<notin> fst ` set params \<Longrightarrow>
         map_of (reduce_params params) = paramsAsMap params"
proof -
  have r: "(if params \<noteq> [] then reduce_params params else []) = reduce_params params"
    by (simp add: reduce_params_def)
  show "filter is_request (fst (try_block h ''job'' ''triggerParams'' i rd)) =
      [JenkinsApiRequest ''get''
         (baseUrl c @ ''/job/'' @ job @ ''/buildWithParameters?token='' @ token)
         (JObj []) (JObj []) (JObj [(''data'', JObj (reduce_params params))])]"
    by (simp add: try_block_def job_block_def stmt_defs assms r Let_def
        split: sum.splits prod.splits option.splits)
  have "filter (\<lambda>param. fst param \<noteq> ''__proto__'') params = params"
    if "''__proto__'' \<notin> fst ` set params"
    using that by (induction params) auto
  then show "map_of (reduce_params params) = paramsAsMap params"
    if "''__proto__'' \<notin> fst ` set params"
    using that by (simp add: reduce_params_map)
qed

lemma length_long_array: "length long_array = 125001"
  unfolding long_array_def by (rule length_replicate)

lemmas eval_defs = execute_def loop.simps try_block_def job_block_def instance_block_def
  build_block_def stmt_defs push_response_def example_host_def flaky_host_def Let_def

section \<open>Claims\<close>




text \<open>
  C2 (the code departs from it). The \<open>triggerParams\<close> branch folds the pairs into a plain
  object with \<open>body[param.name] = param.value\<close>. For a pair named \<open>__proto__\<close> that
  assignment stores nothing: with the pairs \<open>a = 1\<close> and \<open>__proto__ = x\<close> the request
  carries \<open>{data: {a: '1'}}\<close>, while the list folded into a mapping, which the claim says
  is sent, maps \<open>__proto__\<close> to \<open>x\<close>.
\<close>

theorem triggerParams_drops_proto:
  "filter is_request
     (fst (try_block
        ((example_host 1 False ''job'' ''triggerParams'' ''http://ci'' (\<lambda>i. Inr JNull))
           \<lparr>getNodeParameter_params := \<lambda>i. Inr [(''a'', ''1''), (''__proto__'', ''x'')]\<rparr>)
        ''job'' ''triggerParams'' 0 JUndefined)) =
     [JenkinsApiRequest ''get'' ''http://ci/job/job/buildWithParameters?token=token''
        (JObj []) (JObj []) (JObj [(''data'', JObj [(''a'', JStr ''1'')])])]
   \<and> map_of (reduce_params [(''a'', ''1''), (''__proto__'', ''x'')]) ''__proto__'' = None
   \<and> paramsAsMap [(''a'', ''1''), (''__proto__'', ''x'')] ''__proto__'' = Some (JStr ''x'')"
  by (simp add: try_block_def job_block_def stmt_defs example_host_def reduce_params_def
      set_property_def array_index_def digit_def paramsAsMap_def)




text \<open>
  C4 (the code departs from it). \<open>execute\<close> builds every endpoint as \<open>${baseUrl}/...\<close>
  from the \<open>baseUrl\<close> of the credentials as it is: with \<open>http://ci/\<close> the URI handed to
  \<open>jenkinsApiRequest\<close> for \<open>restart\<close> is \<open>http://ci//restart\<close>, with \<open>http://ci\<close> it is
  \<open>http://ci/restart\<close>. The credential test passes \<open>baseUrl\<close> through
  \<open>tolerateTrailingSlash\<close> and requests \<open>http://ci/api/xml\<close> for both.
\<close>

theorem execute_keeps_trailing_slash:
  "filter is_request (trace (fst (execute
      (example_host 1 False ''instance'' ''restart'' ''http://ci/'' (\<lambda>i. Inr JNull))))) =
     [JenkinsApiRequest ''post'' ''http://ci//restart'' JUndefined JUndefined JUndefined]
   \<and> filter is_request (trace (fst (execute
      (example_host 1 False ''instance'' ''restart'' ''http://ci'' (\<lambda>i. Inr JNull))))) =
     [JenkinsApiRequest ''post'' ''http://ci/restart'' JUndefined JUndefined JUndefined]
   \<and> map uri (fst (buildsGetApiTest (\<lambda>options. Inr JNull)
        \<lparr>username = ''admin'', apiKey = ''secret'', baseUrl = ''http://ci/''\<rparr>)) =
     [''http://ci/api/xml'']
   \<and> map uri (fst (buildsGetApiTest (\<lambda>options. Inr JNull)
        \<lparr>username = ''admin'', apiKey = ''secret'', baseUrl = ''http://ci''\<rparr>)) =
     [''http://ci/api/xml'']"
  by (simp add: eval_defs buildsGetApiTest_def tolerateTrailingSlash_def)

text \<open>
  C5 (as amended). A response that is an array of length \<open>N\<close>, with \<open>N\<close> at most the number
  of arguments the engine accepts in one call, appends exactly its \<open>N\<close> elements to
  \<open>returnData\<close>, in the array's order; a response that is not an array appends exactly
  one item, the response itself. This is what the loop does with the response of every
  item whose statements ran without error. A longer array makes \<open>push.apply\<close> throw
  inside the \<open>try\<close> block before anything is appended: the item then is a failed item,
  which appends the one item \<open>{error: message}\<close> when \<open>continueOnFail\<close> is on and otherwise
  ends the loop with that error.
\<close>

theorem response_normalizer:
  "(length xs \<le> apply_limit h \<longrightarrow>
      push_response h out (JArr xs) = Inr (out @ xs)
      \<and> length (out @ xs) = length out + length xs
      \<and> (\<forall>k < length xs. (out @ xs) ! (length out + k) = xs ! k))
   \<and> (apply_limit h < length xs \<longrightarrow> push_response h out (JArr xs) = Inl (apply_error h))
   \<and> (\<not> isArray r \<longrightarrow> push_response h out r = Inr (out @ [r]))
   \<and> (i < getInputData_length h \<and>
       try_block h resource operation i (responseData st) = (evs, r, None) \<and>
       push_response h (returnData st) r = Inr pushed \<longrightarrow>
         loop h resource operation i st =
           loop h resource operation (Suc i)
             \<lparr>returnData = pushed, responseData = r, trace = trace st @ evs\<rparr>)
   \<and> (i < getInputData_length h \<and>
       try_block h resource operation i (responseData st) = (evs, r, None) \<and>
       push_response h (returnData st) r = Inl e \<longrightarrow>
         loop h resource operation i st =
           (if continueOnFail h then
              loop h resource operation (Suc i)
                \<lparr>returnData = returnData st @ [JObj [(''error'', JStr (message e))]],
                 responseData = r, trace = trace st @ evs\<rparr>
            else (\<lparr>returnData = returnData st, responseData = r, trace = trace st @ evs\<rparr>,
                  Some e)))"
proof (intro conjI impI allI)
  show "push_response h out (JArr xs) = Inr (out @ xs)" if "length xs \<le> apply_limit h"
    using that by (simp add: push_response_def)
  show "length (out @ xs) = length out + length xs"
    by simp
  show "(out @ xs) ! (length out + k) = xs ! k" for k
    by simp
  show "push_response h out (JArr xs) = Inl (apply_error h)" if "apply_limit h < length xs"
    using that by (simp add: push_response_def)
  show "push_response h out r = Inr (out @ [r])" if "\<not> isArray r"
    using that by (simp add: push_response_def)
  show "loop h resource operation i st =
      loop h resource operation (Suc i)
        \<lparr>returnData = pushed, responseData = r, trace = trace st @ evs\<rparr>"
    if "i < getInputData_length h \<and>
       try_block h resource operation i (responseData st) = (evs, r, None) \<and>
       push_response h (returnData st) r = Inr pushed"
    using that by (simp add: loop_ok)
  show "loop h resource operation i st =
      (if continueOnFail h then
         loop h resource operation (Suc i)
           \<lparr>returnData = returnData st @ [JObj [(''error'', JStr (message e))]],
            responseData = r, trace = trace st @ evs\<rparr>
       else (\<lparr>returnData = returnData st, responseData = r, trace = trace st @ evs\<rparr>,
             Some e))"
    if "i < getInputData_length h \<and>
       try_block h resource operation i (responseData st) = (evs, r, None) \<and>
       push_response h (returnData st) r = Inl e"
    using that by (simp add: loop_push_tolerated loop_push_abort)
qed

text \<open>The theorem at an array of three, at an object, at an array longer than the
  example engine's limit, and at a run over two items whose responses are an array of
  two and a string.\<close>

theorem response_normalizer_witness:
  "push_response (example_host 2 False ''job'' ''copy'' ''http://ci'' (\<lambda>i. Inr JNull))
      [JNull] (JArr [JStr ''a'', JStr ''b'', JStr ''c'']) =
     Inr [JNull, JStr ''a'', JStr ''b'', JStr ''c'']
   \<and> push_response (example_host 2 False ''job'' ''copy'' ''http://ci'' (\<lambda>i. Inr JNull))
      [JNull] (JObj [(''id'', JNum 7)]) = Inr [JNull, JObj [(''id'', JNum 7)]]
   \<and> push_response (example_host 2 False ''job'' ''copy'' ''http://ci'' (\<lambda>i. Inr JNull))
      [JNull] (JArr long_array) = Inl (Error ''Maximum call stack size exceeded'')
   \<and> snd (execute (example_host 2 False ''job'' ''copy'' ''http://ci''
        (\<lambda>i. if i = 0 then Inr (JArr [JStr ''a'', JStr ''b'']) else Inr (JStr ''c'')))) =
       Returned [JStr ''a'', JStr ''b'', JStr ''c'']"
proof -
  let ?g = "example_host 2 False ''job'' ''copy'' ''http://ci'' (\<lambda>i. Inr JNull)"
  let ?h = "example_host 2 False ''job'' ''copy'' ''http://ci''
        (\<lambda>i. if i = 0 then Inr (JArr [JStr ''a'', JStr ''b'']) else Inr (JStr ''c''))"
  let ?q = "JObj [(''name'', JStr ''newJob''), (''mode'', JStr ''copy''), (''from'', JStr ''job'')]"
  let ?tr = "[GetNodeParameter ''resource'' 0, GetNodeParameter ''operation'' 0]"
  let ?ev = "\<lambda>i. [GetCredentials ''JenkinsApi'', GetNodeParameter ''job'' i, GetNodeParameter ''newJob'' i,
     JenkinsApiRequest ''post'' ''http://ci/createItem'' ?q JUndefined JUndefined]"
  let ?st0 = "\<lparr>returnData = [], responseData = JUndefined, trace = ?tr\<rparr>"
  let ?st1 = "\<lparr>returnData = [JStr ''a'', JStr ''b''],
    responseData = JArr [JStr ''a'', JStr ''b''], trace = ?tr @ ?ev 0\<rparr>"
  note defs = try_block_def job_block_def stmt_defs example_host_def
  have lim: "apply_limit ?g = 125000" "apply_limit ?h = 125000"
    "apply_error ?g = Error ''Maximum call stack size exceeded''"
    by (simp_all add: example_host_def)
  have a: "push_response ?g [JNull] (JArr [JStr ''a'', JStr ''b'', JStr ''c'']) =
      Inr [JNull, JStr ''a'', JStr ''b'', JStr ''c'']"
    using response_normalizer [of "[JStr ''a'', JStr ''b'', JStr ''c'']" ?g "[JNull]"] lim
    by simp
  have b: "push_response ?g [JNull] (JObj [(''id'', JNum 7)]) = Inr [JNull, JObj [(''id'', JNum 7)]]"
    using response_normalizer [of _ ?g "[JNull]" "JObj [(''id'', JNum 7)]"]
    by simp
  have c: "push_response ?g [JNull] (JArr long_array) = Inl (Error ''Maximum call stack size exceeded'')"
    using response_normalizer [of long_array ?g "[JNull]"] lim length_long_array
    by simp
  have p: "push_response ?h (returnData ?st0) (JArr [JStr ''a'', JStr ''b'']) =
      Inr [JStr ''a'', JStr ''b'']"
    using response_normalizer [of "[JStr ''a'', JStr ''b'']" ?h "[]"] lim
    by simp
  have t: "try_block ?h ''job'' ''copy'' 0 (responseData ?st0) =
      (?ev 0, JArr [JStr ''a'', JStr ''b''], None)"
    by (simp add: defs)
  have n: "0 < getInputData_length ?h"
    by (simp add: example_host_def)
  have "loop ?h ''job'' ''copy'' 0 ?st0 = loop ?h ''job'' ''copy'' (Suc 0) ?st1"
    using response_normalizer [of "[]" ?h "[]" "JArr [JStr ''a'', JStr ''b'']" 0 "''job''"
        "''copy''" ?st0 "?ev 0" "[JStr ''a'', JStr ''b'']"] n t p
    by simp
  then have "snd (execute ?h) = Returned [JStr ''a'', JStr ''b'', JStr ''c'']"
    by (simp add: eval_defs)
  with a b c show ?thesis by simp
qed

text \<open>C5 as stated fails for a long array: on an engine that accepts 125000 arguments,
  a response that is an array of 125001 elements appends none of them; with
  \<open>continueOnFail\<close> on the run returns the single error item, with it off the run throws.\<close>

theorem response_normalizer_counterexample:
  "length long_array = 125001
   \<and> snd (execute (example_host 1 True ''job'' ''trigger'' ''http://ci'' (\<lambda>i. Inr (JArr long_array)))) =
       Returned [JObj [(''error'', JStr ''Maximum call stack size exceeded'')]]
   \<and> snd (execute (example_host 1 False ''job'' ''trigger'' ''http://ci'' (\<lambda>i. Inr (JArr long_array)))) =
       Thrown (Error ''Maximum call stack size exceeded'')"
  by (simp add: eval_defs length_long_array)

text \<open>
  C6. For \<open>build:getAll\<close> with a \<open>filters\<close> collection that has no \<open>depth\<close>, the one
  request made is a GET of \<open>{baseUrl}/api/xml\<close> whose query parameters have \<open>depth\<close>
  equal to 1 (next to the \<open>tree\<close>, \<open>xpath\<close> and \<open>exclude\<close> read from the filters).
\<close>

theorem getAll_default_depth:
  assumes "getCredentials h i = Inr c"
    and "getNodeParameter_filters h i = Inr filters"
    and "map_of filters ''depth'' = None"
  shows "filter is_request (fst (try_block h ''build'' ''build:getAll'' i rd)) =
      [JenkinsApiRequest ''get'' (baseUrl c @ ''/api/xml'')
         (JObj [(''depth'', JNum 1), (''tree'', property filters ''tree''),
                (''xpath'', property filters ''xpath''), (''exclude'', property filters ''exclude'')])
         JUndefined JUndefined]"
  by (simp add: try_block_def build_block_def stmt_defs assms Let_def property_def
      split: sum.splits prod.splits option.splits)

text \<open>The theorem at a host whose filters only set \<open>tree\<close>.\<close>

theorem getAll_default_depth_witness:
  "filter is_request
     (fst (try_block (example_host 1 False ''build'' ''build:getAll'' ''http://ci'' (\<lambda>i. Inr (JStr ''<hudson/>'')))
        ''build'' ''build:getAll'' 0 JUndefined)) =
     [JenkinsApiRequest ''get'' ''http://ci/api/xml''
        (JObj [(''depth'', JNum 1), (''tree'', JStr ''jobs[name]''),
               (''xpath'', JUndefined), (''exclude'', JUndefined)])
        JUndefined JUndefined]"
proof -
  let ?h = "example_host 1 False ''build'' ''build:getAll'' ''http://ci'' (\<lambda>i. Inr (JStr ''<hudson/>''))"
  have c: "getCredentials ?h 0 = Inr \<lparr>username = ''admin'', apiKey = ''secret'', baseUrl = ''http://ci''\<rparr>"
    and f: "getNodeParameter_filters ?h 0 = Inr [(''tree'', JStr ''jobs[name]'')]"
    and d: "map_of [(''tree'', JStr ''jobs[name]'')] ''depth'' = None"
    by (simp_all add: example_host_def)
  from getAll_default_depth [OF c f d, of JUndefined] show ?thesis
    by (simp add: property_def)
qed

text \<open>
  C7 (as amended). If the \<open>(resource, operation)\<close> pair matches none of the dispatch
  branches and the credentials resolve for every item, the loop appends one value per
  input item and that value is \<open>undefined\<close> for every item, the first and the later ones:
  the \<open>try\<close> block only fetches the credentials and leaves \<open>responseData\<close> as it found
  it, and \<open>responseData\<close> is \<open>undefined\<close> when the loop starts. Since the pair is read once
  for the whole run, no item of such a run matches a branch, no request is made and no
  response of an earlier item is ever appended.
\<close>

theorem unmatched_pair_appends_undefined:
  assumes nm: "\<not> dispatches resource operation"
    and res: "getNodeParameter_string h ''resource'' 0 = Inr resource"
    and op: "getNodeParameter_string h ''operation'' 0 = Inr operation"
    and creds: "\<forall>j < getInputData_length h. \<exists>c. getCredentials h j = Inr c"
  shows "execute h =
      (\<lparr>returnData = replicate (getInputData_length h) JUndefined,
        responseData = JUndefined,
        trace = [GetNodeParameter ''resource'' 0, GetNodeParameter ''operation'' 0] @
          replicate (getInputData_length h) (GetCredentials ''JenkinsApi'')\<rparr>,
       Returned (replicate (getInputData_length h) JUndefined))
    \<and> (\<forall>i rd c. getCredentials h i = Inr c \<longrightarrow>
          try_block h resource operation i rd = ([GetCredentials ''JenkinsApi''], rd, None))"
proof
  let ?st0 = "\<lparr>returnData = [], responseData = JUndefined,
    trace = [GetNodeParameter ''resource'' 0, GetNodeParameter ''operation'' 0]\<rparr>"
  have "loop h resource operation 0 ?st0 =
      (\<lparr>returnData = returnData ?st0 @ replicate (getInputData_length h - 0) JUndefined,
        responseData = JUndefined,
        trace = trace ?st0 @ replicate (getInputData_length h - 0) (GetCredentials ''JenkinsApi'')\<rparr>,
       None)"
    by (rule loop_nomatch [OF nm creds]) simp_all
  then show "execute h =
      (\<lparr>returnData = replicate (getInputData_length h) JUndefined,
        responseData = JUndefined,
        trace = [GetNodeParameter ''resource'' 0, GetNodeParameter ''operation'' 0] @
          replicate (getInputData_length h) (GetCredentials ''JenkinsApi'')\<rparr>,
       Returned (replicate (getInputData_length h) JUndefined))"
    by (simp add: execute_def res op)
  show "\<forall>i rd c. getCredentials h i = Inr c \<longrightarrow>
      try_block h resource operation i rd = ([GetCredentials ''JenkinsApi''], rd, None)"
    using try_block_nomatch [OF nm] by blast
qed

text \<open>The theorem at a run over three items whose operation \<open>delete\<close> is not one of the
  job operations.\<close>

theorem unmatched_pair_appends_undefined_witness:
  "execute (example_host 3 False ''job'' ''delete'' ''http://ci'' (\<lambda>i. Inr (JStr ''done''))) =
     (\<lparr>returnData = [JUndefined, JUndefined, JUndefined], responseData = JUndefined,
       trace = [GetNodeParameter ''resource'' 0, GetNodeParameter ''operation'' 0,
         GetCredentials ''JenkinsApi'', GetCredentials ''JenkinsApi'', GetCredentials ''JenkinsApi'']\<rparr>,
      Returned [JUndefined, JUndefined, JUndefined])"
proof -
  let ?h = "example_host 3 False ''job'' ''delete'' ''http://ci'' (\<lambda>i. Inr (JStr ''done''))"
  have nm: "\<not> dispatches ''job'' ''delete''"
    by (simp add: dispatches_def)
  have res: "getNodeParameter_string ?h ''resource'' 0 = Inr ''job''"
    and op: "getNodeParameter_string ?h ''operation'' 0 = Inr ''delete''"
    and creds: "\<forall>j < getInputData_length ?h. \<exists>c. getCredentials ?h j = Inr c"
    and n: "getInputData_length ?h = 3"
    by (simp_all add: example_host_def)
  from unmatched_pair_appends_undefined [OF nm res op creds, THEN conjunct1] n
  show ?thesis
    by (simp add: numeral_3_eq_3)
qed

text \<open>C7 as stated fails for the later items: in a run over two items with the unknown
  operation \<open>delete\<close>, on a server that would answer \<open>done\<close>, the second value appended is
  \<open>undefined\<close> and the trace holds no request, so no item produced a response.\<close>

theorem unmatched_pair_appends_undefined_counterexample:
  "execute (example_host 2 False ''job'' ''delete'' ''http://ci'' (\<lambda>i. Inr (JStr ''done''))) =
     (\<lparr>returnData = [JUndefined, JUndefined], responseData = JUndefined,
       trace = [GetNodeParameter ''resource'' 0, GetNodeParameter ''operation'' 0,
         GetCredentials ''JenkinsApi'', GetCredentials ''JenkinsApi'']\<rparr>,
      Returned [JUndefined, JUndefined])"
  by (simp add: eval_defs)

text \<open>
  C8. For \<open>build:getAll\<close>, when the request returns \<open>response\<close>, the item makes exactly one
  parse call, \<open>parseString(response, {explicitArray: false}, ...)\<close>, after the request.
  If the parse yields \<open>data\<close>, \<open>data\<close> becomes the item's response. If the parse fails
  with \<open>err\<close>, the item fails with \<open>err\<close> and \<open>responseData\<close> is left as it was: in the loop
  the item then contributes the one item \<open>{error: message}\<close> when \<open>continueOnFail\<close> is on,
  and otherwise the loop ends with \<open>err\<close> and \<open>returnData\<close> unchanged.
\<close>

theorem getAll_parse:
  assumes c: "getCredentials h i = Inr c"
    and f: "getNodeParameter_filters h i = Inr filters"
    and q: "q = JObj [(''depth'', if truthy (property filters ''depth'')
                                  then property filters ''depth'' else JNum 1),
                      (''tree'', property filters ''tree''), (''xpath'', property filters ''xpath''),
                      (''exclude'', property filters ''exclude'')]"
    and r: "jenkinsApiRequest h i ''get'' (baseUrl c @ ''/api/xml'') q JUndefined JUndefined =
              Inr response"
    and evs: "evs = [GetCredentials ''JenkinsApi'', GetNodeParameter ''filters'' i,
                JenkinsApiRequest ''get'' (baseUrl c @ ''/api/xml'') q JUndefined JUndefined,
                ParseString response False]"
  shows "fst (try_block h ''build'' ''build:getAll'' i rd) = evs
    \<and> filter is_parse (fst (try_block h ''build'' ''build:getAll'' i rd)) =
        [ParseString response False]
    \<and> (\<forall>data. parseString h i response = Inr data \<longrightarrow>
          try_block h ''build'' ''build:getAll'' i rd = (evs, data, None))
    \<and> (\<forall>err. parseString h i response = Inl err \<longrightarrow>
          try_block h ''build'' ''build:getAll'' i rd = (evs, rd, Some err))
    \<and> (\<forall>err (st :: state).
          parseString h i response = Inl err \<and> i < getInputData_length h \<and> rd = responseData st \<longrightarrow>
          loop h ''build'' ''build:getAll'' i st =
            (if continueOnFail h then
               loop h ''build'' ''build:getAll'' (Suc i)
                 \<lparr>returnData = returnData st @ [JObj [(''error'', JStr (message err))]],
                  responseData = responseData st, trace = trace st @ evs\<rparr>
             else (\<lparr>returnData = returnData st, responseData = responseData st,
                     trace = trace st @ evs\<rparr>, Some err)))"
proof -
  have t: "try_block h ''build'' ''build:getAll'' i rd =
      (case parseString h i response of
         Inl err \<Rightarrow> (evs, rd, Some err)
       | Inr data \<Rightarrow> (evs, data, None))" for rd
    using c f r
    by (simp add: try_block_def build_block_def stmt_defs Let_def q [symmetric] evs
        split: sum.splits)
  have l: "loop h ''build'' ''build:getAll'' i st =
      (if continueOnFail h then
         loop h ''build'' ''build:getAll'' (Suc i)
           \<lparr>returnData = returnData st @ [JObj [(''error'', JStr (message err))]],
            responseData = responseData st, trace = trace st @ evs\<rparr>
       else (\<lparr>returnData = returnData st, responseData = responseData st,
               trace = trace st @ evs\<rparr>, Some err))"
    if "parseString h i response = Inl err" "i < getInputData_length h" for err and st :: state
    using that t [of "responseData st"]
    by (simp add: loop_tolerated loop_abort)
  show ?thesis
    using l by (auto simp: t evs split: sum.splits)
qed

text \<open>The theorem at a server that answers \<open><hudson/>\<close>, which the example host parses,
  and at one that answers \<open><hudson\<close>, which it rejects.\<close>

theorem getAll_parse_witness:
  "try_block (example_host 1 True ''build'' ''build:getAll'' ''http://ci'' (\<lambda>i. Inr (JStr ''<hudson/>'')))
      ''build'' ''build:getAll'' 0 JUndefined =
     ([GetCredentials ''JenkinsApi'', GetNodeParameter ''filters'' 0,
       JenkinsApiRequest ''get'' ''http://ci/api/xml''
         (JObj [(''depth'', JNum 1), (''tree'', JStr ''jobs[name]''),
                (''xpath'', JUndefined), (''exclude'', JUndefined)]) JUndefined JUndefined,
       ParseString (JStr ''<hudson/>'') False],
      JObj [(''hudson'', JStr [])], None)
   \<and> snd (try_block (example_host 1 True ''build'' ''build:getAll'' ''http://ci'' (\<lambda>i. Inr (JStr ''<hudson'')))
      ''build'' ''build:getAll'' 0 JUndefined) =
     (JUndefined, Some (Error ''Unexpected end''))"
proof -
  let ?h = "\<lambda>xml. example_host 1 True ''build'' ''build:getAll'' ''http://ci'' (\<lambda>i. Inr (JStr xml))"
  let ?c = "\<lparr>username = ''admin'', apiKey = ''secret'', baseUrl = ''http://ci''\<rparr>"
  let ?q = "JObj [(''depth'', JNum 1), (''tree'', JStr ''jobs[name]''),
                (''xpath'', JUndefined), (''exclude'', JUndefined)]"
  let ?evs = "\<lambda>xml. [GetCredentials ''JenkinsApi'', GetNodeParameter ''filters'' 0,
       JenkinsApiRequest ''get'' ''http://ci/api/xml'' ?q JUndefined JUndefined,
       ParseString (JStr xml) False]"
  have c: "getCredentials (?h xml) 0 = Inr ?c"
    and f: "getNodeParameter_filters (?h xml) 0 = Inr [(''tree'', JStr ''jobs[name]'')]"
    and q: "?q = JObj [(''depth'', if truthy (property [(''tree'', JStr ''jobs[name]'')] ''depth'')
                                  then property [(''tree'', JStr ''jobs[name]'')] ''depth'' else JNum 1),
                      (''tree'', property [(''tree'', JStr ''jobs[name]'')] ''tree''),
                      (''xpath'', property [(''tree'', JStr ''jobs[name]'')] ''xpath''),
                      (''exclude'', property [(''tree'', JStr ''jobs[name]'')] ''exclude'')]"
    and r: "jenkinsApiRequest (?h xml) 0 ''get'' (baseUrl ?c @ ''/api/xml'') ?q JUndefined JUndefined =
              Inr (JStr xml)"
    and e: "?evs xml = [GetCredentials ''JenkinsApi'', GetNodeParameter ''filters'' 0,
                JenkinsApiRequest ''get'' (baseUrl ?c @ ''/api/xml'') ?q JUndefined JUndefined,
                ParseString (JStr xml) False]"
    and ok: "parseString (?h ''<hudson/>'') 0 (JStr ''<hudson/>'') = Inr (JObj [(''hudson'', JStr [])])"
    and bad: "parseString (?h ''<hudson'') 0 (JStr ''<hudson'') = Inl (Error ''Unexpected end'')"
    for xml
    by (simp_all add: example_host_def property_def)
  note a = getAll_parse [OF c f q r e, of _ JUndefined]
  from a [of "''<hudson/>''"] ok
  have 1: "try_block (?h ''<hudson/>'') ''build'' ''build:getAll'' 0 JUndefined =
      (?evs ''<hudson/>'', JObj [(''hudson'', JStr [])], None)"
    by blast
  from a [of "''<hudson''"] bad
  have 2: "try_block (?h ''<hudson'') ''build'' ''build:getAll'' 0 JUndefined =
      (?evs ''<hudson'', JUndefined, Some (Error ''Unexpected end''))"
    by blast
  from 1 2 show ?thesis by simp
qed

text \<open>
  C9. For each of the instance operations \<open>quietDown\<close>, \<open>cancelQuietDown\<close>, \<open>restart\<close>,
  \<open>safeRestart\<close>, \<open>exit\<close> and \<open>safeExit\<close> the one request made is a POST of
  \<open>{baseUrl}/{operation}\<close>. Its query parameters are \<open>{reason}\<close> for \<open>quietDown\<close> with a
  non-empty reason; for \<open>quietDown\<close> with an empty reason and for every other operation no
  query parameters are passed. No headers and no body are passed.
\<close>

theorem instance_request:
  assumes "getCredentials h i = Inr c"
    and "operation \<in> set [''quietDown'', ''cancelQuietDown'', ''restart'', ''safeRestart'',
           ''exit'', ''safeExit'']"
    and "operation = ''quietDown'' \<longrightarrow> getNodeParameter_string h ''reason'' i = Inr reason"
  shows "filter is_request (fst (try_block h ''instance'' operation i rd)) =
      [JenkinsApiRequest ''post'' (baseUrl c @ ''/'' @ operation)
         (if operation = ''quietDown'' \<and> reason \<noteq> [] then JObj [(''reason'', JStr reason)]
          else JUndefined)
         JUndefined JUndefined]"
proof -
  have "operation = ''quietDown'' \<or> operation = ''cancelQuietDown'' \<or> operation = ''restart''
      \<or> operation = ''safeRestart'' \<or> operation = ''exit'' \<or> operation = ''safeExit''"
    using assms(2) by simp
  then show ?thesis
    using assms(1,3)
    by (elim disjE) (simp_all add: try_block_def instance_block_def stmt_defs Let_def split: sum.splits)
qed

text \<open>The theorem at \<open>quietDown\<close> with the reason \<open>upgrade\<close>, at \<open>quietDown\<close> with an empty
  reason, and at \<open>safeExit\<close>.\<close>

theorem instance_request_witness:
  "filter is_request
     (fst (try_block
        ((example_host 1 False ''instance'' ''quietDown'' ''http://ci'' (\<lambda>i. Inr JNull))
           \<lparr>getNodeParameter_string := \<lambda>name i. Inr ''upgrade''\<rparr>)
        ''instance'' ''quietDown'' 0 JUndefined)) =
     [JenkinsApiRequest ''post'' ''http://ci/quietDown'' (JObj [(''reason'', JStr ''upgrade'')])
        JUndefined JUndefined]
   \<and> filter is_request
     (fst (try_block (example_host 1 False ''instance'' ''quietDown'' ''http://ci'' (\<lambda>i. Inr JNull))
        ''instance'' ''quietDown'' 0 JUndefined)) =
     [JenkinsApiRequest ''post'' ''http://ci/quietDown'' JUndefined JUndefined JUndefined]
   \<and> filter is_request
     (fst (try_block (example_host 1 False ''instance'' ''safeExit'' ''http://ci'' (\<lambda>i. Inr JNull))
        ''instance'' ''safeExit'' 0 JUndefined)) =
     [JenkinsApiRequest ''post'' ''http://ci/safeExit'' JUndefined JUndefined JUndefined]"
proof -
  let ?c = "\<lparr>username = ''admin'', apiKey = ''secret'', baseUrl = ''http://ci''\<rparr>"
  let ?h = "\<lambda>operation. example_host 1 False ''instance'' operation ''http://ci'' (\<lambda>i. Inr JNull)"
  let ?h' = "(?h ''quietDown'')\<lparr>getNodeParameter_string := \<lambda>name i. Inr ''upgrade''\<rparr>"
  have c: "getCredentials (?h operation) 0 = Inr ?c" for operation
    by (simp add: example_host_def)
  have c': "getCredentials ?h' 0 = Inr ?c"
    by (simp add: example_host_def)
  have r: "''quietDown'' = ''quietDown'' \<longrightarrow> getNodeParameter_string (?h ''quietDown'') ''reason'' 0 = Inr []"
    by (simp add: example_host_def)
  have r': "''quietDown'' = ''quietDown'' \<longrightarrow> getNodeParameter_string ?h' ''reason'' 0 = Inr ''upgrade''"
    by simp
  have s: "''safeExit'' = ''quietDown'' \<longrightarrow> getNodeParameter_string (?h ''safeExit'') ''reason'' 0 = Inr []"
    by simp
  from instance_request [OF c' _ r', of JUndefined]
    instance_request [OF c _ r, of JUndefined]
    instance_request [OF c _ s, of JUndefined]
  show ?thesis by simp
qed

text \<open>
  C10. For every credential \<open>{username, apiKey, baseUrl}\<close> the credential test makes one
  request: a GET of the normalised \<open>baseUrl\<close> followed by \<open>/api/xml\<close>, with the header
  \<open>Authorization: Basic base64(username:apiKey)\<close>. It returns the status \<open>OK\<close> with the
  message \<open>Authentication successful\<close> exactly when that request succeeds, and the status
  \<open>Error\<close> with the message of the error thrown exactly when it fails; it always returns
  a result.
\<close>

theorem buildsGetApiTest_result:
  assumes o: "options =
      \<lparr>headers = JObj [(''Authorization'',
           JStr (''Basic '' @ base64 (username credential @ '':'' @ apiKey credential)))],
       request_method = ''GET'', body = JObj [], qs = JObj [],
       uri = tolerateTrailingSlash (baseUrl credential) @ ''/api/xml'', json = True\<rparr>"
  shows "fst (buildsGetApiTest request credential) = [options]
    \<and> (snd (buildsGetApiTest request credential) =
          \<lparr>status = ''OK'', result_message = ''Authentication successful''\<rparr>) =
        (\<exists>response. request options = Inr response)
    \<and> (status (snd (buildsGetApiTest request credential)) = ''Error'') =
        (\<exists>e. request options = Inl e)
    \<and> (\<forall>e. request options = Inl e \<longrightarrow>
          snd (buildsGetApiTest request credential) =
            \<lparr>status = ''Error'', result_message = message e\<rparr>)"
  by (cases "request options") (simp_all add: buildsGetApiTest_def o)

text \<open>The theorem at the credential \<open>admin\<close>, \<open>secret\<close>, \<open>http://ci/\<close>, on a transport that
  accepts only that authorisation header.\<close>

theorem buildsGetApiTest_result_witness:
  "buildsGetApiTest
     (\<lambda>options. if headers options = JObj [(''Authorization'', JStr ''Basic YWRtaW46c2VjcmV0'')]
        then Inr JNull else Inl (Error ''401 - Unauthorized''))
     \<lparr>username = ''admin'', apiKey = ''secret'', baseUrl = ''http://ci/''\<rparr> =
     ([\<lparr>headers = JObj [(''Authorization'', JStr ''Basic YWRtaW46c2VjcmV0'')],
        request_method = ''GET'', body = JObj [], qs = JObj [],
        uri = ''http://ci/api/xml'', json = True\<rparr>],
      \<lparr>status = ''OK'', result_message = ''Authentication successful''\<rparr>)
   \<and> snd (buildsGetApiTest
     (\<lambda>options. if headers options = JObj [(''Authorization'', JStr ''Basic YWRtaW46c2VjcmV0'')]
        then Inr JNull else Inl (Error ''401 - Unauthorized''))
     \<lparr>username = ''admin'', apiKey = ''wrong'', baseUrl = ''http://ci''\<rparr>) =
     \<lparr>status = ''Error'', result_message = ''401 - Unauthorized''\<rparr>"
proof -
  let ?request = "\<lambda>options. if headers options = JObj [(''Authorization'', JStr ''Basic YWRtaW46c2VjcmV0'')]
        then Inr JNull else Inl (Error ''401 - Unauthorized'')"
  let ?good = "\<lparr>username = ''admin'', apiKey = ''secret'', baseUrl = ''http://ci/''\<rparr>"
  let ?bad = "\<lparr>username = ''admin'', apiKey = ''wrong'', baseUrl = ''http://ci''\<rparr>"
  let ?options = "\<lambda>token. \<lparr>headers = JObj [(''Authorization'', JStr (''Basic '' @ token))],
        request_method = ''GET'', body = JObj [], qs = JObj [],
        uri = ''http://ci/api/xml'', json = True\<rparr>"
  have g: "?options ''YWRtaW46c2VjcmV0'' =
      \<lparr>headers = JObj [(''Authorization'',
           JStr (''Basic '' @ base64 (username ?good @ '':'' @ apiKey ?good)))],
       request_method = ''GET'', body = JObj [], qs = JObj [],
       uri = tolerateTrailingSlash (baseUrl ?good) @ ''/api/xml'', json = True\<rparr>"
    by (simp add: base64_def sextet_def base64_alphabet_def tolerateTrailingSlash_def)
  have b: "?options ''YWRtaW46d3Jvbmc='' =
      \<lparr>headers = JObj [(''Authorization'',
           JStr (''Basic '' @ base64 (username ?bad @ '':'' @ apiKey ?bad)))],
       request_method = ''GET'', body = JObj [], qs = JObj [],
       uri = tolerateTrailingSlash (baseUrl ?bad) @ ''/api/xml'', json = True\<rparr>"
    by (simp add: base64_def sextet_def base64_alphabet_def tolerateTrailingSlash_def)
  note x = buildsGetApiTest_result [OF g, of ?request]
  note y = buildsGetApiTest_result [OF b, of ?request]
  have 1: "buildsGetApiTest ?request ?good =
      ([?options ''YWRtaW46c2VjcmV0''],
       \<lparr>status = ''OK'', result_message = ''Authentication successful''\<rparr>)"
    using x by (simp add: prod_eq_iff)
  have 2: "snd (buildsGetApiTest ?request ?bad) =
      \<lparr>status = ''Error'', result_message = ''401 - Unauthorized''\<rparr>"
    using y by simp
  from 1 2 show ?thesis by simp
qed

end
